theory Spec2Isabelle
  imports Complex_Main "HOL-Library.Word"
begin

section \<open>Civic issue detection service: the model of \<open>heck1/main.py\<close>\<close>

text \<open>
  The theory embeds the inference service of \<open>main.py\<close>: the image preprocessing
  (\<open>preprocess_image\<close>), the decoding of the two output heads
  (\<open>predict_issue_and_severity\<close>), and the two HTTP handlers (\<open>predict_issue\<close>,
  \<open>health_check\<close>). Library calls (PIL, NumPy, the Keras model, \<open>os.path\<close>) are
  modelled by what the program observes of them.

  Probabilities are floating-point numbers in the program. The decoder only compares and
  selects them (the conversion \<open>float(...)\<close> of a 32-bit value to a 64-bit one is exact),
  so they are modelled by the real numbers they denote; not-a-number values are outside
  the model.
\<close>

subsection \<open>Exceptions\<close>

text \<open>
  Every exception the program can see is a value. A message built by an f-string that
  embeds another exception keeps that exception (\<open>Wrapped\<close>), and the message that joins
  the elements of a set keeps the set (\<open>Joined\<close>: the order of iteration of a Python set
  is not fixed). \<open>HTTPException\<close> is FastAPI's class: a direct subclass of
  \<open>Exception\<close>, unrelated to \<open>ValueError\<close> and \<open>RuntimeError\<close>. \<open>LibraryError\<close> stands for
  any other exception raised inside a library.
\<close>

datatype exc =
    ValueError msg
  | RuntimeError msg
  | IndexError
  | KeyError string
  | HTTPException nat msg
  | LibraryError string
and msg =
    Text string
  | Wrapped string exc
  | Joined string string "string set"

definition bind_exc :: "exc + 'a \<Rightarrow> ('a \<Rightarrow> exc + 'b) \<Rightarrow> exc + 'b" where
  "bind_exc r f = (case r of Inl e \<Rightarrow> Inl e | Inr v \<Rightarrow> f v)"

definition HTTP_400_BAD_REQUEST :: nat where
  "HTTP_400_BAD_REQUEST = 400"

definition HTTP_500_INTERNAL_SERVER_ERROR :: nat where
  "HTTP_500_INTERNAL_SERVER_ERROR = 500"

subsection \<open>Configuration\<close>

definition MODEL_INPUT_SIZE :: "nat \<times> nat" where
  "MODEL_INPUT_SIZE = (224, 224)"

definition ISSUE_CLASSES :: "string list" where
  "ISSUE_CLASSES = [''pothole'', ''garbage'', ''broken_streetlight'', ''waterlogging'']"

definition SEVERITY_CLASSES :: "string list" where
  "SEVERITY_CLASSES = [''low'', ''medium'', ''high'']"

definition ALLOWED_EXTENSIONS :: "string set" where
  "ALLOWED_EXTENSIONS = {''.jpg'', ''.jpeg'', ''.png'', ''.JPG'', ''.JPEG'', ''.PNG''}"

subsection \<open>Indexing and arg-max\<close>

text \<open>
  \<open>xs[i]\<close> for a non-negative index: \<open>IndexError\<close> out of range. \<open>d[k]\<close> on a
  dictionary: \<open>KeyError\<close> for a missing key.
\<close>

definition getitem :: "'a list \<Rightarrow> nat \<Rightarrow> exc + 'a" where
  "getitem xs i = (if i < length xs then Inr (xs ! i) else Inl IndexError)"

definition dict_getitem :: "(string \<rightharpoonup> 'a) \<Rightarrow> string \<Rightarrow> exc + 'a" where
  "dict_getitem d k = (case d k of None \<Rightarrow> Inl (KeyError k) | Some v \<Rightarrow> Inr v)"

text \<open>
  \<open>np.argmax\<close> on a one-dimensional array: a scan from the left that keeps the running
  maximum and its index and replaces them only by a strictly greater element; an empty
  array raises \<open>ValueError\<close>.
\<close>

fun argmax_scan :: "real \<Rightarrow> nat \<Rightarrow> nat \<Rightarrow> real list \<Rightarrow> nat" where
  "argmax_scan mp best i [] = best"
| "argmax_scan mp best i (x # xs) =
     (if mp < x then argmax_scan x i (Suc i) xs else argmax_scan mp best (Suc i) xs)"

definition np_argmax :: "real list \<Rightarrow> exc + nat" where
  "np_argmax xs =
     (case xs of
        [] \<Rightarrow> Inl (ValueError (Text ''attempt to get argmax of an empty sequence''))
      | x # r \<Rightarrow> Inr (argmax_scan x 0 1 r))"

subsection \<open>The prediction decoder\<close>

text \<open>
  What \<open>model.predict\<close> returns: a dictionary from head names to batches, or a sequence
  of batches. A batch is a list of rows, one probability vector per image.
\<close>

datatype predictions =
    Keyed "string \<rightharpoonup> real list list"
  | Positional "real list list list"

datatype pyval = Str string | Float real

text \<open>Lines 181 to 187: the two probability vectors of the first image of the batch.\<close>

definition extract_probs :: "predictions \<Rightarrow> exc + (real list \<times> real list)" where
  "extract_probs ps =
     (case ps of
        Keyed d \<Rightarrow>
          bind_exc (dict_getitem d ''issue_output'') (\<lambda>io.
          bind_exc (getitem io 0) (\<lambda>issue_probs.
          bind_exc (dict_getitem d ''severity_output'') (\<lambda>so.
          bind_exc (getitem so 0) (\<lambda>severity_probs.
          Inr (issue_probs, severity_probs)))))
      | Positional p \<Rightarrow>
          bind_exc (getitem p 0) (\<lambda>io.
          bind_exc (getitem io 0) (\<lambda>issue_probs.
          bind_exc (getitem p 1) (\<lambda>so.
          bind_exc (getitem so 0) (\<lambda>severity_probs.
          Inr (issue_probs, severity_probs))))))"

text \<open>Lines 189 to 208: indices, class names, confidences and the result dictionary.\<close>

definition decode_probs :: "real list \<Rightarrow> real list \<Rightarrow> exc + (string \<rightharpoonup> pyval)" where
  "decode_probs issue_probs severity_probs =
     bind_exc (np_argmax issue_probs) (\<lambda>issue_idx.
     bind_exc (np_argmax severity_probs) (\<lambda>severity_idx.
     bind_exc (getitem ISSUE_CLASSES issue_idx) (\<lambda>issue_type.
     bind_exc (getitem SEVERITY_CLASSES severity_idx) (\<lambda>severity.
     bind_exc (getitem issue_probs issue_idx) (\<lambda>confidence.
     bind_exc (getitem severity_probs severity_idx) (\<lambda>severity_confidence.
     Inr [''issue_type'' \<mapsto> Str issue_type,
          ''severity'' \<mapsto> Str severity,
          ''confidence'' \<mapsto> Float confidence,
          ''severity_confidence'' \<mapsto> Float severity_confidence]))))))"

definition decode_predictions :: "predictions \<Rightarrow> exc + (string \<rightharpoonup> pyval)" where
  "decode_predictions ps =
     bind_exc (extract_probs ps) (\<lambda>(issue_probs, severity_probs).
       decode_probs issue_probs severity_probs)"

text \<open>
  The input tensor and the model: \<open>model.predict\<close> is a function of the tensor that may
  raise. The global \<open>model\<close> is \<open>None\<close> until the startup hook has loaded it.
\<close>

type_synonym tensor = "real list list list list"

type_synonym keras_model = "tensor \<Rightarrow> exc + predictions"

text \<open>
  \<open>predict_issue_and_severity\<close>: the second component counts the calls of
  \<open>model.predict\<close>. The check of the global is outside the \<open>try\<close>; every exception
  inside it is raised again as a \<open>RuntimeError\<close>.
\<close>

definition predict_issue_and_severity ::
  "keras_model option \<Rightarrow> tensor \<Rightarrow> (exc + (string \<rightharpoonup> pyval)) \<times> nat" where
  "predict_issue_and_severity model image_array =
     (case model of
        None \<Rightarrow> (Inl (RuntimeError (Text ''Model not loaded. Please restart the service.'')), 0)
      | Some m \<Rightarrow>
          (case bind_exc (m image_array) decode_predictions of
             Inl e \<Rightarrow> Inl (RuntimeError (Wrapped ''Model inference failed: '' e))
           | Inr result \<Rightarrow> Inr result,
           1))"

subsection \<open>The health endpoint\<close>

record HealthResponse =
  status :: string
  model_loaded :: bool

definition health_check :: "keras_model option \<Rightarrow> HealthResponse" where
  "health_check model =
     (let model_loaded = (model \<noteq> None)
      in \<lparr>status = (if model_loaded then ''healthy'' else ''model_not_loaded''),
          model_loaded = model_loaded\<rparr>)"

subsection \<open>Image preprocessing\<close>

text \<open>
  A PIL image, as far as the program sees it: the mode, the size (width, height) and
  the band values of each pixel. The three PIL calls of \<open>preprocess_image\<close> are
  parameters (decoding, colour conversion and resampling are PIL's work, done in
  floating point), collected in a record; each may raise.
\<close>

record image =
  img_mode :: string
  img_size :: "nat \<times> nat"
  img_pixel :: "nat \<times> nat \<Rightarrow> nat list"

datatype resampling = NEAREST | BOX | BILINEAR | HAMMING | BICUBIC | LANCZOS

record pil =
  Image_open :: "8 word list \<Rightarrow> exc + image"
  convert :: "image \<Rightarrow> string \<Rightarrow> exc + image"
  resize :: "image \<Rightarrow> nat \<times> nat \<Rightarrow> resampling \<Rightarrow> exc + image"

text \<open>Lines 128 to 135: open, convert to RGB unless the mode is RGB already, resize.\<close>

definition load_rgb_resized :: "pil \<Rightarrow> 8 word list \<Rightarrow> exc + image" where
  "load_rgb_resized lib image_bytes =
     bind_exc (Image_open lib image_bytes) (\<lambda>img.
     bind_exc (if img_mode img \<noteq> ''RGB'' then convert lib img ''RGB'' else Inr img) (\<lambda>img.
     resize lib img MODEL_INPUT_SIZE LANCZOS))"

text \<open>
  \<open>np.array(image, dtype=np.float32)\<close>: rows, then columns, then bands; the sample
  values are small integers, which 32-bit floats hold exactly.
\<close>

definition np_array :: "image \<Rightarrow> real list list list" where
  "np_array im =
     map (\<lambda>y. map (\<lambda>x. map real (img_pixel im (x, y))) [0..<fst (img_size im)])
       [0..<snd (img_size im)]"

text \<open>
  \<open>preprocess_image\<close>. The division is a 32-bit floating-point division: the exact
  quotient, rounded by \<open>f32\<close>, a parameter. Every exception is raised again as a
  \<open>ValueError\<close>.
\<close>

definition preprocess_image :: "pil \<Rightarrow> (real \<Rightarrow> real) \<Rightarrow> 8 word list \<Rightarrow> exc + tensor" where
  "preprocess_image lib f32 image_bytes =
     (case load_rgb_resized lib image_bytes of
        Inl e \<Rightarrow> Inl (ValueError (Wrapped ''Image preprocessing failed: '' e))
      | Inr img \<Rightarrow>
          (let img_array = np_array img;
               img_array = map (map (map (\<lambda>v. f32 (v / 255)))) img_array;
               img_array = [img_array]
           in Inr img_array))"

subsection \<open>File names\<close>

text \<open>
  \<open>os.path.splitext\<close> (POSIX): \<open>str.rfind\<close> gives the last index of a character or
  \<open>-1\<close>; the extension starts at the last dot, provided that dot comes after the last
  slash and some character between the two is not a dot.
\<close>

fun rfind_scan :: "char \<Rightarrow> int \<Rightarrow> int \<Rightarrow> string \<Rightarrow> int" where
  "rfind_scan c found i [] = found"
| "rfind_scan c found i (x # xs) = rfind_scan c (if x = c then i else found) (i + 1) xs"

definition rfind :: "string \<Rightarrow> char \<Rightarrow> int" where
  "rfind p c = rfind_scan c (- 1) 0 p"

function non_dot_before :: "string \<Rightarrow> char \<Rightarrow> nat \<Rightarrow> nat \<Rightarrow> bool" where
  "non_dot_before p extsep filenameIndex dotIndex =
     (if filenameIndex < dotIndex
      then (if take 1 (drop filenameIndex p) \<noteq> [extsep] then True
            else non_dot_before p extsep (Suc filenameIndex) dotIndex)
      else False)"
  by pat_completeness auto
termination
  by (relation "measure (\<lambda>(p, extsep, filenameIndex, dotIndex). dotIndex - filenameIndex)") auto

definition splitext_generic :: "string \<Rightarrow> char \<Rightarrow> char option \<Rightarrow> char \<Rightarrow> string \<times> string" where
  "splitext_generic p sep altsep extsep =
     (let sepIndex = rfind p sep;
          sepIndex = (case altsep of None \<Rightarrow> sepIndex | Some a \<Rightarrow> max sepIndex (rfind p a));
          dotIndex = rfind p extsep
      in if sepIndex < dotIndex \<and> non_dot_before p extsep (nat (sepIndex + 1)) (nat dotIndex)
         then (take (nat dotIndex) p, drop (nat dotIndex) p)
         else (p, []))"

definition splitext :: "string \<Rightarrow> string \<times> string" where
  "splitext p = splitext_generic p (CHR ''/'') None (CHR ''.'')"

subsection \<open>The prediction endpoint\<close>

record UploadFile =
  filename :: string
  contents :: "8 word list"

record PredictionResponse =
  issue_type :: string
  severity :: string
  confidence :: real

text \<open>
  The constructor of the response model validates the field types (a validation error
  of pydantic is a \<open>ValueError\<close>).
\<close>

definition PredictionResponse_init :: "pyval \<Rightarrow> pyval \<Rightarrow> pyval \<Rightarrow> exc + PredictionResponse" where
  "PredictionResponse_init a b c =
     (case (a, b, c) of
        (Str it, Str sv, Float cf) \<Rightarrow> Inr \<lparr>issue_type = it, severity = sv, confidence = cf\<rparr>
      | _ \<Rightarrow> Inl (ValueError (Text ''validation error for PredictionResponse'')))"

text \<open>Lines 245 to 265: the body of the \<open>try\<close>, with the count of model calls.\<close>

definition predict_issue_body ::
  "pil \<Rightarrow> (real \<Rightarrow> real) \<Rightarrow> keras_model option \<Rightarrow> UploadFile \<Rightarrow> (exc + PredictionResponse) \<times> nat" where
  "predict_issue_body lib f32 model file =
     (let image_bytes = contents file
      in if length image_bytes = 0
         then (Inl (HTTPException HTTP_400_BAD_REQUEST (Text ''Empty file uploaded'')), 0)
         else (case preprocess_image lib f32 image_bytes of
                 Inl e \<Rightarrow> (Inl e, 0)
               | Inr image_array \<Rightarrow>
                   (case predict_issue_and_severity model image_array of
                      (r, calls) \<Rightarrow>
                        (bind_exc r (\<lambda>result.
                           bind_exc (dict_getitem result ''issue_type'') (\<lambda>a.
                           bind_exc (dict_getitem result ''severity'') (\<lambda>b.
                           bind_exc (dict_getitem result ''confidence'') (\<lambda>c.
                           PredictionResponse_init a b c)))),
                         calls))))"

text \<open>
  Lines 267 to 281: the \<open>except\<close> clauses, tried in order. An \<open>HTTPException\<close> is
  neither a \<open>ValueError\<close> nor a \<open>RuntimeError\<close>; the last clause, \<open>except Exception\<close>,
  matches it.
\<close>

definition except_clauses :: "exc \<Rightarrow> exc" where
  "except_clauses e =
     (case e of
        ValueError m \<Rightarrow> HTTPException HTTP_400_BAD_REQUEST (Wrapped ''Image processing error: '' e)
      | RuntimeError m \<Rightarrow>
          HTTPException HTTP_500_INTERNAL_SERVER_ERROR (Wrapped ''Model inference error: '' e)
      | _ \<Rightarrow> HTTPException HTTP_500_INTERNAL_SERVER_ERROR (Wrapped ''Unexpected error: '' e))"

definition invalid_file_type :: exc where
  "invalid_file_type =
     HTTPException HTTP_400_BAD_REQUEST
       (Joined ''Invalid file type. Allowed: '' '', '' ALLOWED_EXTENSIONS)"

definition predict_issue ::
  "pil \<Rightarrow> (real \<Rightarrow> real) \<Rightarrow> keras_model option \<Rightarrow> UploadFile \<Rightarrow> (exc + PredictionResponse) \<times> nat" where
  "predict_issue lib f32 model file =
     (let file_ext = snd (splitext (filename file))
      in if file_ext \<notin> ALLOWED_EXTENSIONS then (Inl invalid_file_type, 0)
         else (case predict_issue_body lib f32 model file of
                 (Inl e, calls) \<Rightarrow> (Inl (except_clauses e), calls)
               | (Inr response, calls) \<Rightarrow> (Inr response, calls)))"

text \<open>
  What the framework sends: the fields of the response model as a JSON object with
  status 200, the status and detail of an \<open>HTTPException\<close>, and status 500 for any
  other exception.
\<close>

datatype http_body = Json "(string \<times> pyval) list" | Detail msg

definition http_response :: "exc + PredictionResponse \<Rightarrow> nat \<times> http_body" where
  "http_response r =
     (case r of
        Inr response \<Rightarrow>
          (200, Json [(''issue_type'', Str (issue_type response)),
                      (''severity'', Str (severity response)),
                      (''confidence'', Float (confidence response))])
      | Inl (HTTPException status_code detail) \<Rightarrow> (status_code, Detail detail)
      | Inl _ \<Rightarrow> (500, Detail (Text ''Internal Server Error'')))"

subsection \<open>Vocabulary of the properties\<close>

text \<open>
  Python's \<open>str.lower\<close> and \<open>str.upper\<close> on ASCII text, to say what a comparison
  that ignores case is.
\<close>

definition lower_char :: "char \<Rightarrow> char" where
  "lower_char c =
     (let n = (of_char c :: nat) in if 65 \<le> n \<and> n \<le> 90 then char_of (n + 32) else c)"

definition upper_char :: "char \<Rightarrow> char" where
  "upper_char c =
     (let n = (of_char c :: nat) in if 97 \<le> n \<and> n \<le> 122 then char_of (n - 32) else c)"

definition str_lower :: "string \<Rightarrow> string" where
  "str_lower s = map lower_char s"

definition str_upper :: "string \<Rightarrow> string" where
  "str_upper s = map upper_char s"

text \<open>
  What PIL promises and the program relies on. An RGB image has three samples of at
  most 255 at every pixel of its area; \<open>Image.open\<close> returns such an image when it
  says the mode is RGB, \<open>convert("RGB")\<close> returns one, and \<open>resize\<close> returns an image of
  the size asked for, RGB when its argument is.
\<close>

definition rgb8 :: "image \<Rightarrow> bool" where
  "rgb8 im =
     (\<forall>x < fst (img_size im). \<forall>y < snd (img_size im).
        length (img_pixel im (x, y)) = 3 \<and> (\<forall>v\<in>set (img_pixel im (x, y)). v \<le> 255))"

definition pil_contract :: "pil \<Rightarrow> bool" where
  "pil_contract lib =
     ((\<forall>b im. Image_open lib b = Inr im \<and> img_mode im = ''RGB'' \<longrightarrow> rgb8 im) \<and>
      (\<forall>im im'. convert lib im ''RGB'' = Inr im' \<longrightarrow> rgb8 im') \<and>
      (\<forall>im sz f im'. resize lib im sz f = Inr im' \<longrightarrow>
         img_size im' = sz \<and> (rgb8 im \<longrightarrow> rgb8 im')))"

text \<open>
  Rounding to the nearest 32-bit float is monotone and leaves 0 and 1, which are
  floats, as they are.
\<close>

definition float32_rounding :: "(real \<Rightarrow> real) \<Rightarrow> bool" where
  "float32_rounding f32 = ((\<forall>x y. x \<le> y \<longrightarrow> f32 x \<le> f32 y) \<and> f32 0 = 0 \<and> f32 1 = 1)"

text \<open>The shape \<open>[n, h, w, c]\<close> of a tensor, and the range of its elements.\<close>

definition has_shape :: "tensor \<Rightarrow> nat \<Rightarrow> nat \<Rightarrow> nat \<Rightarrow> nat \<Rightarrow> bool" where
  "has_shape t n h w c =
     (length t = n \<and>
      (\<forall>a\<in>set t. length a = h \<and>
         (\<forall>r\<in>set a. length r = w \<and> (\<forall>p\<in>set r. length p = c))))"

definition in_unit_range :: "tensor \<Rightarrow> bool" where
  "in_unit_range t = (\<forall>a\<in>set t. \<forall>r\<in>set a. \<forall>p\<in>set r. \<forall>v\<in>set p. 0 \<le> v \<and> v \<le> 1)"

text \<open>
  A small library and a small model to run the service on: the decoder reads a
  grey-scale image of one pixel from the first byte, the conversion repeats the grey
  value in three bands, the resizing takes the nearest pixel; the model returns the
  probability vectors of the example, as a sequence.
\<close>

definition toy_pil :: pil where
  "toy_pil =
     \<lparr>Image_open = (\<lambda>b. case b of
          [] \<Rightarrow> Inl (LibraryError ''cannot identify image file'')
        | v # _ \<Rightarrow> Inr \<lparr>img_mode = ''L'', img_size = (1, 1), img_pixel = (\<lambda>p. [unat v])\<rparr>),
      convert = (\<lambda>im m.
        Inr \<lparr>img_mode = m, img_size = img_size im,
             img_pixel = (\<lambda>p. case img_pixel im p of
                [] \<Rightarrow> [0, 0, 0]
              | v # _ \<Rightarrow> [min v 255, min v 255, min v 255])\<rparr>),
      resize = (\<lambda>im sz f.
        if fst (img_size im) = 0 \<or> snd (img_size im) = 0
        then Inl (LibraryError ''cannot resize an empty image'')
        else Inr \<lparr>img_mode = img_mode im, img_size = sz,
                  img_pixel = (\<lambda>(x, y).
                    img_pixel im (x * fst (img_size im) div fst sz,
                                  y * snd (img_size im) div snd sz))\<rparr>)\<rparr>"

definition toy_model :: keras_model where
  "toy_model t = Inr (Positional [[[1/10, 7/10, 1/10, 1/10]], [[1/5, 3/10, 1/2]]])"

section \<open>Properties\<close>

lemma bind_exc_simps [simp]:
  "bind_exc (Inl e) f = Inl e"
  "bind_exc (Inr v) f = f v"
  by (simp_all add: bind_exc_def)

subsection \<open>Arg-max\<close>

lemma argmax_scan_first_max:
  assumes "best < i" and "length pre = i" and "pre ! best = mp"
    and "\<forall>j<i. pre ! j \<le> mp" and "\<forall>j<best. pre ! j < mp"
  shows "argmax_scan mp best i xs < length (pre @ xs) \<and>
         (\<forall>j<length (pre @ xs). (pre @ xs) ! j \<le> (pre @ xs) ! argmax_scan mp best i xs) \<and>
         (\<forall>j<argmax_scan mp best i xs. (pre @ xs) ! j < (pre @ xs) ! argmax_scan mp best i xs)"
  using assms
proof (induction xs arbitrary: pre mp best i)
  case Nil
  then show ?case by simp
next
  case (Cons x xs)
  show ?case
  proof (cases "mp < x")
    case True
    have "argmax_scan x i (Suc i) xs < length ((pre @ [x]) @ xs) \<and>
         (\<forall>j<length ((pre @ [x]) @ xs).
             ((pre @ [x]) @ xs) ! j \<le> ((pre @ [x]) @ xs) ! argmax_scan x i (Suc i) xs) \<and>
         (\<forall>j<argmax_scan x i (Suc i) xs.
             ((pre @ [x]) @ xs) ! j < ((pre @ [x]) @ xs) ! argmax_scan x i (Suc i) xs)"
    proof (rule Cons.IH)
      show "i < Suc i" by simp
      show "length (pre @ [x]) = Suc i" using Cons.prems by simp
      show "(pre @ [x]) ! i = x" using Cons.prems by (simp add: nth_append)
      show "\<forall>j<Suc i. (pre @ [x]) ! j \<le> x"
        using Cons.prems True
        by (auto simp: nth_append less_Suc_eq intro: order.trans less_imp_le)
      show "\<forall>j<i. (pre @ [x]) ! j < x"
        using Cons.prems True by (auto simp: nth_append intro: le_less_trans)
    qed
    with True show ?thesis by simp
  next
    case False
    have "argmax_scan mp best (Suc i) xs < length ((pre @ [x]) @ xs) \<and>
         (\<forall>j<length ((pre @ [x]) @ xs).
             ((pre @ [x]) @ xs) ! j \<le> ((pre @ [x]) @ xs) ! argmax_scan mp best (Suc i) xs) \<and>
         (\<forall>j<argmax_scan mp best (Suc i) xs.
             ((pre @ [x]) @ xs) ! j < ((pre @ [x]) @ xs) ! argmax_scan mp best (Suc i) xs)"
    proof (rule Cons.IH)
      show "best < Suc i" using Cons.prems by simp
      show "length (pre @ [x]) = Suc i" using Cons.prems by simp
      show "(pre @ [x]) ! best = mp" using Cons.prems by (simp add: nth_append)
      show "\<forall>j<Suc i. (pre @ [x]) ! j \<le> mp"
        using Cons.prems False by (auto simp: nth_append less_Suc_eq)
      show "\<forall>j<best. (pre @ [x]) ! j < mp"
        using Cons.prems by (auto simp: nth_append)
    qed
    with False show ?thesis by simp
  qed
qed

lemma np_argmax_first_max:
  assumes "xs \<noteq> []"
  shows "\<exists>k. np_argmax xs = Inr k \<and> k < length xs \<and>
             (\<forall>j<length xs. xs ! j \<le> xs ! k) \<and> (\<forall>j<k. xs ! j < xs ! k)"
proof -
  from assms obtain x r where xs: "xs = x # r" by (cases xs) auto
  have "argmax_scan x 0 1 r < length ([x] @ r) \<and>
         (\<forall>j<length ([x] @ r). ([x] @ r) ! j \<le> ([x] @ r) ! argmax_scan x 0 1 r) \<and>
         (\<forall>j<argmax_scan x 0 1 r. ([x] @ r) ! j < ([x] @ r) ! argmax_scan x 0 1 r)"
    by (rule argmax_scan_first_max) simp_all
  then show ?thesis by (simp add: xs np_argmax_def)
qed

lemma np_argmax_bound: "np_argmax xs = Inr k \<Longrightarrow> k < length xs"
proof -
  assume a: "np_argmax xs = Inr k"
  then have "xs \<noteq> []" by (auto simp: np_argmax_def)
  from np_argmax_first_max [OF this] a show ?thesis by auto
qed

text \<open>
  C5. On a non-empty vector the arg-max of the decoder is an index of a maximal element,
  and every element before it is strictly smaller: among equal maxima the first one is
  selected. On \<open>[0.5, 0.5, 0, 0]\<close> it is index 0, and the decoder names the class at
  index 0.
\<close>

theorem np_argmax_lowest_index_of_maximum:
  "(xs \<noteq> [] \<longrightarrow>
      (\<exists>k. np_argmax xs = Inr k \<and> k < length xs \<and>
           (\<forall>j<length xs. xs ! j \<le> xs ! k) \<and> (\<forall>j<k. xs ! j < xs ! k))) \<and>
   np_argmax [0.5, 0.5, 0, 0] = Inr 0 \<and>
   decode_probs [0.5, 0.5, 0, 0] [0.2, 0.3, 0.5] =
     Inr [''issue_type'' \<mapsto> Str ''pothole'', ''severity'' \<mapsto> Str ''high'',
          ''confidence'' \<mapsto> Float 0.5, ''severity_confidence'' \<mapsto> Float 0.5]"
proof (intro conjI impI)
  assume "xs \<noteq> []"
  then show "\<exists>k. np_argmax xs = Inr k \<and> k < length xs \<and>
           (\<forall>j<length xs. xs ! j \<le> xs ! k) \<and> (\<forall>j<k. xs ! j < xs ! k)"
    by (rule np_argmax_first_max)
next
  show "np_argmax [0.5, 0.5, 0, 0] = Inr 0"
    by (simp add: np_argmax_def)
next
  show "decode_probs [0.5, 0.5, 0, 0] [0.2, 0.3, 0.5] =
     Inr [''issue_type'' \<mapsto> Str ''pothole'', ''severity'' \<mapsto> Str ''high'',
          ''confidence'' \<mapsto> Float 0.5, ''severity_confidence'' \<mapsto> Float 0.5]"
    by (simp add: decode_probs_def np_argmax_def getitem_def ISSUE_CLASSES_def
        SEVERITY_CLASSES_def)
qed

theorem np_argmax_lowest_index_of_maximum_witness:
  "[1/4, 3/8, 1/8, 3/8] \<noteq> ([] :: real list) \<and>
   (\<exists>k. np_argmax [1/4, 3/8, 1/8, 3/8] = Inr k \<and> k = 1 \<and>
        (\<forall>j<k. [1/4, 3/8, 1/8, 3/8 :: real] ! j < [1/4, 3/8, 1/8, 3/8] ! k))"
  using np_argmax_lowest_index_of_maximum [of "[1/4, 3/8, 1/8, 3/8]"]
  by (simp add: np_argmax_def)

subsection \<open>The decoder on the example\<close>

text \<open>
  C4. On \<open>issueProbs = [0.1, 0.7, 0.1, 0.1]\<close> and \<open>severityProbs = [0.2, 0.3, 0.5]\<close>
  the decoder returns the issue class at index 1 (garbage), the severity class at index
  2 (high) and the confidence 0.7.
\<close>

theorem decode_probs_example:
  "decode_probs [0.1, 0.7, 0.1, 0.1] [0.2, 0.3, 0.5] =
     Inr [''issue_type'' \<mapsto> Str ''garbage'', ''severity'' \<mapsto> Str ''high'',
          ''confidence'' \<mapsto> Float 0.7, ''severity_confidence'' \<mapsto> Float 0.5] \<and>
   getitem ISSUE_CLASSES 1 = Inr ''garbage'' \<and>
   getitem SEVERITY_CLASSES 2 = Inr ''high''"
  by (simp add: decode_probs_def np_argmax_def getitem_def ISSUE_CLASSES_def
      SEVERITY_CLASSES_def)

lemma getitem_Inr: "i < length xs \<Longrightarrow> getitem xs i = Inr (xs ! i)"
  by (simp add: getitem_def)

lemma getitem_Inl: "\<not> i < length xs \<Longrightarrow> getitem xs i = Inl IndexError"
  by (simp add: getitem_def)

lemma decode_probs_unfold:
  assumes i: "np_argmax issue_probs = Inr i" and s: "np_argmax severity_probs = Inr s"
  shows "decode_probs issue_probs severity_probs =
     (if i < 4 \<and> s < 3
      then Inr [''issue_type'' \<mapsto> Str (ISSUE_CLASSES ! i),
                ''severity'' \<mapsto> Str (SEVERITY_CLASSES ! s),
                ''confidence'' \<mapsto> Float (issue_probs ! i),
                ''severity_confidence'' \<mapsto> Float (severity_probs ! s)]
      else Inl IndexError)"
proof -
  have li: "i < length issue_probs" using i by (rule np_argmax_bound)
  have ls: "s < length severity_probs" using s by (rule np_argmax_bound)
  have lc: "length ISSUE_CLASSES = 4" "length SEVERITY_CLASSES = 3"
    by (simp_all add: ISSUE_CLASSES_def SEVERITY_CLASSES_def)
  show ?thesis
    by (simp add: decode_probs_def i s getitem_def li ls lc)
qed

subsection \<open>Vectors of the wrong length\<close>

text \<open>
  C3 (as amended). The decoder makes no check of the vector lengths. When both arg-max
  indices exist, it fails with \<open>IndexError\<close> exactly when one of them is not an index of
  the class list of its head (4 or more for the issue head, 3 or more for the severity
  head), and otherwise returns the labels at those indices. An empty vector fails in the
  arg-max with a \<open>ValueError\<close>. Non-empty vectors no longer than their class lists, such
  as a severity vector of length 2, are always decoded to a result.
\<close>
theorem decode_probs_index_error:
  "(np_argmax issue_probs = Inr i \<and> np_argmax severity_probs = Inr s \<longrightarrow>
      decode_probs issue_probs severity_probs =
        (if i < length ISSUE_CLASSES \<and> s < length SEVERITY_CLASSES
         then Inr [''issue_type'' \<mapsto> Str (ISSUE_CLASSES ! i),
                   ''severity'' \<mapsto> Str (SEVERITY_CLASSES ! s),
                   ''confidence'' \<mapsto> Float (issue_probs ! i),
                   ''severity_confidence'' \<mapsto> Float (severity_probs ! s)]
         else Inl IndexError)) \<and>
   (issue_probs = [] \<or> severity_probs = [] \<longrightarrow>
      decode_probs issue_probs severity_probs =
        Inl (ValueError (Text ''attempt to get argmax of an empty sequence''))) \<and>
   (issue_probs \<noteq> [] \<and> length issue_probs \<le> length ISSUE_CLASSES \<and>
    severity_probs \<noteq> [] \<and> length severity_probs \<le> length SEVERITY_CLASSES \<longrightarrow>
      (\<exists>result. decode_probs issue_probs severity_probs = Inr result))"
proof (intro conjI impI)
  assume a: "np_argmax issue_probs = Inr i \<and> np_argmax severity_probs = Inr s"
  have lc: "length ISSUE_CLASSES = 4" "length SEVERITY_CLASSES = 3"
    by (simp_all add: ISSUE_CLASSES_def SEVERITY_CLASSES_def)
  from a show "decode_probs issue_probs severity_probs =
        (if i < length ISSUE_CLASSES \<and> s < length SEVERITY_CLASSES
         then Inr [''issue_type'' \<mapsto> Str (ISSUE_CLASSES ! i),
                   ''severity'' \<mapsto> Str (SEVERITY_CLASSES ! s),
                   ''confidence'' \<mapsto> Float (issue_probs ! i),
                   ''severity_confidence'' \<mapsto> Float (severity_probs ! s)]
         else Inl IndexError)"
    by (simp only: lc decode_probs_unfold)
next
  assume "issue_probs = [] \<or> severity_probs = []"
  then show "decode_probs issue_probs severity_probs =
        Inl (ValueError (Text ''attempt to get argmax of an empty sequence''))"
    by (cases issue_probs) (auto simp: decode_probs_def np_argmax_def)
next
  assume a: "issue_probs \<noteq> [] \<and> length issue_probs \<le> length ISSUE_CLASSES \<and>
    severity_probs \<noteq> [] \<and> length severity_probs \<le> length SEVERITY_CLASSES"
  have lc: "length ISSUE_CLASSES = 4" "length SEVERITY_CLASSES = 3"
    by (simp_all add: ISSUE_CLASSES_def SEVERITY_CLASSES_def)
  from a np_argmax_first_max [of issue_probs] obtain i where
    i: "np_argmax issue_probs = Inr i" "i < length issue_probs" by auto
  from a np_argmax_first_max [of severity_probs] obtain s where
    s: "np_argmax severity_probs = Inr s" "s < length severity_probs" by auto
  from a i s lc have "i < 4 \<and> s < 3" by simp
  then show "\<exists>result. decode_probs issue_probs severity_probs = Inr result"
    by (simp add: decode_probs_unfold [OF i(1) s(1)])
qed

theorem decode_probs_index_error_witness:
  "np_argmax [0, 0, 0, 0, 1] = Inr 4 \<and> np_argmax [2/5, 3/5] = Inr 1 \<and>
   decode_probs [0, 0, 0, 0, 1] [2/5, 3/5] = Inl IndexError \<and>
   decode_probs [] [2/5, 3/5] = Inl (ValueError (Text ''attempt to get argmax of an empty sequence'')) \<and>
   (\<exists>result. decode_probs [1/10, 7/10, 1/10, 1/10] [2/5, 3/5] = Inr result)"
  using decode_probs_index_error [of "[0, 0, 0, 0, 1]" 4 "[2/5, 3/5]" 1]
    decode_probs_index_error [of "[]" 0 "[2/5, 3/5]" 0]
    decode_probs_index_error [of "[1/10, 7/10, 1/10, 1/10]" 0 "[2/5, 3/5]" 0]
  by (simp add: np_argmax_def ISSUE_CLASSES_def SEVERITY_CLASSES_def)

text \<open>
  The claim C3 as stated fails: a severity vector of length 2 is decoded to the label
  \<open>medium\<close>, with no error.
\<close>

theorem decode_probs_short_severity_counterexample:
  "length [2/5, 3/5 :: real] \<noteq> length SEVERITY_CLASSES \<and>
   decode_probs [1/10, 7/10, 1/10, 1/10] [2/5, 3/5] =
     Inr [''issue_type'' \<mapsto> Str ''garbage'', ''severity'' \<mapsto> Str ''medium'',
          ''confidence'' \<mapsto> Float (7/10), ''severity_confidence'' \<mapsto> Float (3/5)]"
  by (simp add: decode_probs_def np_argmax_def getitem_def ISSUE_CLASSES_def
      SEVERITY_CLASSES_def)

subsection \<open>Keyed and positional model outputs\<close>

text \<open>
  C6. A dictionary that holds the issue batch under \<open>issue_output\<close> and the severity
  batch under \<open>severity_output\<close>, and a sequence that holds the same two batches first
  and second, give the same probability vectors and the same decoded result (or the
  same failure); so does the prediction routine on two models that return them.
\<close>
theorem keyed_positional_same_result:
  "(d ''issue_output'' = Some io \<and> d ''severity_output'' = Some so \<longrightarrow>
      extract_probs (Keyed d) = extract_probs (Positional (io # so # rest)) \<and>
      decode_predictions (Keyed d) = decode_predictions (Positional (io # so # rest))) \<and>
   (d ''issue_output'' = Some io \<and> d ''severity_output'' = Some so \<and>
    m1 t = Inr (Keyed d) \<and> m2 t = Inr (Positional (io # so # rest)) \<longrightarrow>
      predict_issue_and_severity (Some m1) t = predict_issue_and_severity (Some m2) t)"
proof -
  have e: "extract_probs (Keyed d) = extract_probs (Positional (io # so # rest))"
    if "d ''issue_output'' = Some io" "d ''severity_output'' = Some so"
    using that by (simp add: extract_probs_def dict_getitem_def getitem_def)
  then have p: "decode_predictions (Keyed d) = decode_predictions (Positional (io # so # rest))"
    if "d ''issue_output'' = Some io" "d ''severity_output'' = Some so"
    using that by (simp add: decode_predictions_def)
  show ?thesis
    using e p by (simp add: predict_issue_and_severity_def)
qed

theorem keyed_positional_same_result_witness:
  "[''issue_output'' \<mapsto> [[1/10, 7/10, 1/10, 1/10]], ''severity_output'' \<mapsto> [[1/5, 3/10, 1/2 :: real]]]
      ''issue_output'' = Some [[1/10, 7/10, 1/10, 1/10]] \<and>
   [''issue_output'' \<mapsto> [[1/10, 7/10, 1/10, 1/10]], ''severity_output'' \<mapsto> [[1/5, 3/10, 1/2 :: real]]]
      ''severity_output'' = Some [[1/5, 3/10, 1/2]] \<and>
   decode_predictions (Keyed [''issue_output'' \<mapsto> [[1/10, 7/10, 1/10, 1/10]],
                              ''severity_output'' \<mapsto> [[1/5, 3/10, 1/2]]]) =
     decode_predictions (Positional [[[1/10, 7/10, 1/10, 1/10]], [[1/5, 3/10, 1/2]]]) \<and>
   decode_predictions (Positional [[[1/10, 7/10, 1/10, 1/10]], [[1/5, 3/10, 1/2]]]) =
     Inr [''issue_type'' \<mapsto> Str ''garbage'', ''severity'' \<mapsto> Str ''high'',
          ''confidence'' \<mapsto> Float (7/10), ''severity_confidence'' \<mapsto> Float (1/2)]"
  using keyed_positional_same_result
    [of "[''issue_output'' \<mapsto> [[1/10, 7/10, 1/10, 1/10]], ''severity_output'' \<mapsto> [[1/5, 3/10, 1/2]]]"
        "[[1/10, 7/10, 1/10, 1/10]]" "[[1/5, 3/10, 1/2]]" "[]"]
  by (simp add: decode_predictions_def extract_probs_def getitem_def decode_probs_def
      np_argmax_def ISSUE_CLASSES_def SEVERITY_CLASSES_def)

subsection \<open>The confidence\<close>

text \<open>
  C7. For an issue vector of length 4 and a severity vector of length 3 the decoder
  returns a result whose confidence is the issue vector's value at its arg-max index, a
  maximal value of the issue vector; it is the same whatever the severity vector is.
\<close>
theorem confidence_is_issue_maximum:
  "length issue_probs = 4 \<and> length severity_probs = 3 \<longrightarrow>
     (\<exists>result k. decode_probs issue_probs severity_probs = Inr result \<and>
        np_argmax issue_probs = Inr k \<and> k < 4 \<and>
        result ''confidence'' = Some (Float (issue_probs ! k)) \<and>
        (\<forall>j<4. issue_probs ! j \<le> issue_probs ! k) \<and>
        (\<forall>severity_probs'. length severity_probs' = 3 \<longrightarrow>
           (\<exists>result'. decode_probs issue_probs severity_probs' = Inr result' \<and>
              result' ''confidence'' = result ''confidence'')))"
proof
  assume a: "length issue_probs = 4 \<and> length severity_probs = 3"
  then have ne: "issue_probs \<noteq> []" "severity_probs \<noteq> []" by auto
  from np_argmax_first_max [OF ne(1)] a obtain k where
    k: "np_argmax issue_probs = Inr k" "k < 4" "\<forall>j<4. issue_probs ! j \<le> issue_probs ! k"
    by auto
  have any: "\<exists>result'. decode_probs issue_probs sp = Inr result' \<and>
      result' ''confidence'' = Some (Float (issue_probs ! k))" if "length sp = 3" for sp
  proof -
    from that have "sp \<noteq> []" by auto
    from np_argmax_first_max [OF this] that obtain s where
      s: "np_argmax sp = Inr s" "s < 3" by auto
    show ?thesis
      using k(2) s(2) by (simp add: decode_probs_unfold [OF k(1) s(1)])
  qed
  from any [of severity_probs] a obtain result where
    r: "decode_probs issue_probs severity_probs = Inr result"
       "result ''confidence'' = Some (Float (issue_probs ! k))" by auto
  show "\<exists>result k. decode_probs issue_probs severity_probs = Inr result \<and>
        np_argmax issue_probs = Inr k \<and> k < 4 \<and>
        result ''confidence'' = Some (Float (issue_probs ! k)) \<and>
        (\<forall>j<4. issue_probs ! j \<le> issue_probs ! k) \<and>
        (\<forall>severity_probs'. length severity_probs' = 3 \<longrightarrow>
           (\<exists>result'. decode_probs issue_probs severity_probs' = Inr result' \<and>
              result' ''confidence'' = result ''confidence''))"
    using r k any by auto
qed

theorem confidence_is_issue_maximum_witness:
  "length [1/10, 1/5, 3/5, 1/10 :: real] = 4 \<and> length [9/10, 1/20, 1/20 :: real] = 3 \<and>
   (\<exists>result. decode_probs [1/10, 1/5, 3/5, 1/10] [9/10, 1/20, 1/20] = Inr result \<and>
      result ''confidence'' = Some (Float (3/5)))"
  using confidence_is_issue_maximum [of "[1/10, 1/5, 3/5, 1/10]" "[9/10, 1/20, 1/20]"]
  by (auto simp add: np_argmax_def)

subsection \<open>The health endpoint\<close>

text \<open>
  C9. Whatever the global model handle is, \<open>GET /health\<close> reports \<open>model_loaded\<close> true
  exactly when a model is loaded, the status \<open>healthy\<close> then and \<open>model_not_loaded\<close>
  otherwise; the status is \<open>healthy\<close> if and only if \<open>model_loaded\<close> is true.
\<close>

theorem health_check_reports_model:
  "model_loaded (health_check model) = (model \<noteq> None) \<and>
   status (health_check model) = (if model \<noteq> None then ''healthy'' else ''model_not_loaded'') \<and>
   (status (health_check model) = ''healthy'') = model_loaded (health_check model) \<and>
   (status (health_check model) = ''model_not_loaded'') = (\<not> model_loaded (health_check model))"
  by (simp add: health_check_def)

subsection \<open>Image preprocessing\<close>

lemma load_rgb_resized_Inr:
  assumes c: "pil_contract lib" and l: "load_rgb_resized lib image_bytes = Inr img"
  shows "img_size img = MODEL_INPUT_SIZE \<and> rgb8 img"
proof -
  from l obtain im0 where o: "Image_open lib image_bytes = Inr im0"
    by (cases "Image_open lib image_bytes") (simp_all add: load_rgb_resized_def)
  let ?c = "if img_mode im0 \<noteq> ''RGB'' then convert lib im0 ''RGB'' else Inr im0"
  from l o obtain im1 where c1: "?c = Inr im1"
    by (cases ?c) (simp_all add: load_rgb_resized_def)
  from l o c1 have r: "resize lib im1 MODEL_INPUT_SIZE LANCZOS = Inr img"
    by (simp add: load_rgb_resized_def)
  have "rgb8 im1"
  proof (cases "img_mode im0 \<noteq> ''RGB''")
    case True
    with c1 have "convert lib im0 ''RGB'' = Inr im1" by simp
    with c show ?thesis unfolding pil_contract_def by blast
  next
    case False
    with c1 have "im1 = im0" by simp
    with False o c show ?thesis unfolding pil_contract_def by blast
  qed
  with r c show ?thesis unfolding pil_contract_def by blast
qed

lemma np_array_shape:
  assumes "img_size img = (w, h)" and "rgb8 img"
  shows "length (np_array img) = h \<and>
         (\<forall>r\<in>set (np_array img). length r = w \<and> (\<forall>p\<in>set r. length p = 3 \<and>
            (\<forall>v\<in>set p. 0 \<le> v \<and> v \<le> 255)))"
  using assms by (auto simp: np_array_def rgb8_def)

lemma f32_unit:
  assumes "float32_rounding f32" and "0 \<le> v" and "v \<le> 255"
  shows "0 \<le> f32 (v / 255) \<and> f32 (v / 255) \<le> 1"
proof -
  from assms(1) have m: "\<And>x y. x \<le> y \<Longrightarrow> f32 x \<le> f32 y" and z: "f32 0 = 0" and o: "f32 1 = 1"
    by (simp_all add: float32_rounding_def)
  from assms(2) have "0 \<le> v / 255" by simp
  from m [OF this] z have a: "0 \<le> f32 (v / 255)" by simp
  from assms(3) have "v / 255 \<le> 1" by simp
  from m [OF this] o have "f32 (v / 255) \<le> 1" by simp
  with a show ?thesis by simp
qed

lemma np_array_nth:
  assumes "img_size img = (w, h)" and "y < h" and "x < w"
  shows "np_array img ! y ! x = map real (img_pixel img (x, y))"
  using assms by (simp add: np_array_def)

lemma np_array_lengths:
  assumes "img_size img = (w, h)"
  shows "length (np_array img) = h" and "y < h \<Longrightarrow> length (np_array img ! y) = w"
  using assms by (simp_all add: np_array_def)

lemma load_rgb_resized_steps:
  assumes "Image_open lib image_bytes = Inr im0"
    and "(if img_mode im0 \<noteq> ''RGB'' then convert lib im0 ''RGB'' else Inr im0) = Inr im1"
    and "resize lib im1 (224, 224) LANCZOS = Inr img"
  shows "load_rgb_resized lib image_bytes = Inr img"
  using assms by (simp add: load_rgb_resized_def MODEL_INPUT_SIZE_def)

text \<open>
  C8. Let the bytes decode to an image: \<open>Image.open\<close> returns an image, its
  conversion to RGB (skipped when the mode is RGB already) returns an image, and the
  resizing of that one to 224 by 224 with the Lanczos filter returns the image \<open>img\<close>.
  Then \<open>preprocess_image\<close> returns a tensor of shape \<open>[1, 224, 224, 3]\<close> with every
  element between 0 and 1, and its element at row \<open>y\<close>, column \<open>x\<close> and band \<open>c\<close> of
  the one batch entry is the sample of \<open>img\<close> at pixel \<open>(x, y)\<close> and band \<open>c\<close>, divided
  by 255.
\<close>

theorem preprocess_image_shape_and_range:
  assumes "pil_contract lib" and "float32_rounding f32"
    and "Image_open lib image_bytes = Inr im0"
    and "(if img_mode im0 \<noteq> ''RGB'' then convert lib im0 ''RGB'' else Inr im0) = Inr im1"
    and "resize lib im1 (224, 224) LANCZOS = Inr img"
  shows "\<exists>t. preprocess_image lib f32 image_bytes = Inr t \<and>
             has_shape t 1 224 224 3 \<and> in_unit_range t \<and>
             (\<forall>y<224. \<forall>x<224. \<forall>c<3.
                t ! 0 ! y ! x ! c = f32 (real (img_pixel img (x, y) ! c) / 255))"
proof -
  have l: "load_rgb_resized lib image_bytes = Inr img"
    using assms(3-5) by (rule load_rgb_resized_steps)
  from load_rgb_resized_Inr [OF assms(1) l]
  have sz: "img_size img = (224, 224)" and rgb: "rgb8 img"
    by (simp_all add: MODEL_INPUT_SIZE_def)
  note sh = np_array_shape [OF sz rgb]
  let ?g = "\<lambda>v. f32 (v / 255)"
  let ?t = "[map (map (map ?g)) (np_array img)]"
  have p: "preprocess_image lib f32 image_bytes = Inr ?t"
    by (simp add: preprocess_image_def l)
  have s: "has_shape ?t 1 224 224 3"
    using sh by (auto simp: has_shape_def)
  have u: "in_unit_range ?t"
    unfolding in_unit_range_def
  proof (intro ballI)
    fix a r p v
    assume "a \<in> set ?t" "r \<in> set a" "p \<in> set r" "v \<in> set p"
    then obtain r0 p0 v0 where "r0 \<in> set (np_array img)" "p0 \<in> set r0" "v0 \<in> set p0"
      "v = f32 (v0 / 255)" by auto
    with sh have "0 \<le> v0 \<and> v0 \<le> 255" by blast
    with f32_unit [OF assms(2)] \<open>v = f32 (v0 / 255)\<close> show "0 \<le> v \<and> v \<le> 1" by simp
  qed
  have px: "?t ! 0 ! y ! x ! c = f32 (real (img_pixel img (x, y) ! c) / 255)"
    if "y < 224" "x < 224" "c < 3" for y x c
  proof -
    have ly: "y < length (np_array img)"
      using that np_array_lengths(1) [OF sz] by simp
    have lx: "x < length (np_array img ! y)"
      using that np_array_lengths(2) [OF sz] by simp
    have e: "np_array img ! y ! x = map real (img_pixel img (x, y))"
      using that by (simp add: np_array_nth [OF sz])
    from rgb sz that have lc: "c < length (img_pixel img (x, y))"
      by (simp add: rgb8_def)
    have "?t ! 0 ! y ! x ! c = ?g (np_array img ! y ! x ! c)"
      using ly lx lc by (simp add: e)
    also have "\<dots> = f32 (real (img_pixel img (x, y) ! c) / 255)"
      using lc by (simp add: e)
    finally show ?thesis .
  qed
  from p s u px show ?thesis by blast
qed

lemma toy_pil_contract: "pil_contract toy_pil"
  unfolding pil_contract_def
proof (intro conjI allI impI)
  fix b im
  assume "Image_open toy_pil b = Inr im \<and> img_mode im = ''RGB''"
  then show "rgb8 im"
    by (cases b) (auto simp: toy_pil_def)
next
  fix im im'
  assume "convert toy_pil im ''RGB'' = Inr im'"
  then show "rgb8 im'"
    by (auto simp: toy_pil_def rgb8_def split: list.splits)
next
  fix im sz f im'
  assume "resize toy_pil im sz f = Inr im'"
  then show "img_size im' = sz"
    by (auto simp: toy_pil_def split: if_splits)
next
  fix im sz f im'
  assume r: "resize toy_pil im sz f = Inr im'" and g: "rgb8 im"
  obtain w h where wh: "img_size im = (w, h)" by (cases "img_size im")
  obtain w' h' where sz: "sz = (w', h')" by (cases sz)
  from r wh have pos: "0 < w" "0 < h"
    by (auto simp: toy_pil_def split: if_splits)
  from r wh sz pos have im': "img_size im' = (w', h')"
    "\<And>x y. img_pixel im' (x, y) = img_pixel im (x * w div w', y * h div h')"
    by (auto simp: toy_pil_def)
  have inb: "x * w div w' < w" if "x < w'" for x
  proof -
    from that pos have "x * w < w' * w" by simp
    then show ?thesis by (simp add: less_mult_imp_div_less mult.commute)
  qed
  have inb': "y * h div h' < h" if "y < h'" for y
  proof -
    from that pos have "y * h < h' * h" by simp
    then show ?thesis by (simp add: less_mult_imp_div_less mult.commute)
  qed
  show "rgb8 im'"
    unfolding rgb8_def im' fst_conv snd_conv
  proof (intro allI impI)
    fix x y
    assume "x < w'" "y < h'"
    then have "x * w div w' < w" "y * h div h' < h" by (simp_all add: inb inb')
    with g wh show "length (img_pixel im (x * w div w', y * h div h')) = 3 \<and>
        (\<forall>v\<in>set (img_pixel im (x * w div w', y * h div h')). v \<le> 255)"
      by (simp add: rgb8_def)
  qed
qed

lemma toy_load: "load_rgb_resized toy_pil [128] =
   Inr \<lparr>img_mode = ''RGB'', img_size = (224, 224),
        img_pixel = (\<lambda>(x, y). [128, 128, 128])\<rparr>"
  by (simp add: load_rgb_resized_def toy_pil_def MODEL_INPUT_SIZE_def)

lemma toy_steps:
  "Image_open toy_pil [128] =
     Inr \<lparr>img_mode = ''L'', img_size = (1, 1), img_pixel = (\<lambda>p. [128])\<rparr>"
  "convert toy_pil \<lparr>img_mode = ''L'', img_size = (1, 1), img_pixel = (\<lambda>p. [128])\<rparr> ''RGB'' =
     Inr \<lparr>img_mode = ''RGB'', img_size = (1, 1), img_pixel = (\<lambda>p. [128, 128, 128])\<rparr>"
  "resize toy_pil \<lparr>img_mode = ''RGB'', img_size = (1, 1), img_pixel = (\<lambda>p. [128, 128, 128])\<rparr>
       (224, 224) LANCZOS =
     Inr \<lparr>img_mode = ''RGB'', img_size = (224, 224), img_pixel = (\<lambda>(x, y). [128, 128, 128])\<rparr>"
  by (simp_all add: toy_pil_def)

theorem preprocess_image_shape_and_range_witness:
  "pil_contract toy_pil \<and> float32_rounding (\<lambda>x. x) \<and>
   Image_open toy_pil [128] =
     Inr \<lparr>img_mode = ''L'', img_size = (1, 1), img_pixel = (\<lambda>p. [128])\<rparr> \<and>
   convert toy_pil \<lparr>img_mode = ''L'', img_size = (1, 1), img_pixel = (\<lambda>p. [128])\<rparr> ''RGB'' =
     Inr \<lparr>img_mode = ''RGB'', img_size = (1, 1), img_pixel = (\<lambda>p. [128, 128, 128])\<rparr> \<and>
   resize toy_pil \<lparr>img_mode = ''RGB'', img_size = (1, 1), img_pixel = (\<lambda>p. [128, 128, 128])\<rparr>
       (224, 224) LANCZOS =
     Inr \<lparr>img_mode = ''RGB'', img_size = (224, 224), img_pixel = (\<lambda>(x, y). [128, 128, 128])\<rparr> \<and>
   (\<exists>t. preprocess_image toy_pil (\<lambda>x. x) [128] = Inr t \<and>
        has_shape t 1 224 224 3 \<and> in_unit_range t \<and> t ! 0 ! 10 ! 200 ! 2 = 128 / 255)"
proof -
  have f: "float32_rounding (\<lambda>x. x)" by (simp add: float32_rounding_def)
  have c: "(if img_mode \<lparr>img_mode = ''L'', img_size = (1, 1), img_pixel = (\<lambda>p. [128])\<rparr> \<noteq> ''RGB''
            then convert toy_pil \<lparr>img_mode = ''L'', img_size = (1, 1), img_pixel = (\<lambda>p. [128])\<rparr> ''RGB''
            else Inr \<lparr>img_mode = ''L'', img_size = (1, 1), img_pixel = (\<lambda>p. [128])\<rparr>) =
     Inr \<lparr>img_mode = ''RGB'', img_size = (1, 1), img_pixel = (\<lambda>p. [128, 128, 128])\<rparr>"
    using toy_steps(2) by simp
  from preprocess_image_shape_and_range [OF toy_pil_contract f toy_steps(1) c toy_steps(3)]
  obtain t where t: "preprocess_image toy_pil (\<lambda>x. x) [128] = Inr t"
    "has_shape t 1 224 224 3" "in_unit_range t"
    "\<forall>y<224. \<forall>x<224. \<forall>c<3. t ! 0 ! y ! x ! c =
        real (img_pixel \<lparr>img_mode = ''RGB'', img_size = (224, 224),
                         img_pixel = (\<lambda>(x, y). [128, 128, 128])\<rparr> (x, y) ! c) / 255"
    by blast
  from t(4) have "t ! 0 ! 10 ! 200 ! 2 =
      real (img_pixel \<lparr>img_mode = ''RGB'', img_size = (224, 224),
                       img_pixel = (\<lambda>(x, y). [128, 128, 128])\<rparr> (200, 10) ! 2) / 255"
    by simp
  then have "t ! 0 ! 10 ! 200 ! 2 = 128 / 255" by simp
  with t(1-3) toy_pil_contract f toy_steps show ?thesis by blast
qed

subsection \<open>The extension check\<close>

lemma splitext_road: "splitext ''road.jpg'' = (''road'', ''.jpg'')"
  by code_simp

lemma splitext_photo: "splitext ''photo.Jpg'' = (''photo'', ''.Jpg'')"
  by code_simp

lemma splitext_notes: "splitext ''notes.txt'' = (''notes'', ''.txt'')"
  by code_simp

lemma str_lower_Jpg: "str_lower ''.Jpg'' = ''.jpg''"
  by code_simp

lemma case_folds:
  "str_lower ''.jpg'' = ''.jpg''" "str_lower ''.jpeg'' = ''.jpeg''" "str_lower ''.png'' = ''.png''"
  "str_lower ''.JPG'' = ''.jpg''" "str_lower ''.JPEG'' = ''.jpeg''" "str_lower ''.PNG'' = ''.png''"
  "str_upper ''.JPG'' = ''.JPG''" "str_upper ''.JPEG'' = ''.JPEG''" "str_upper ''.PNG'' = ''.PNG''"
  "str_upper ''.jpg'' = ''.JPG''" "str_upper ''.jpeg'' = ''.JPEG''" "str_upper ''.png'' = ''.PNG''"
  by code_simp+

lemma upper_lower_char: "upper_char (lower_char c) = upper_char c"
proof (cases "65 \<le> (of_char c :: nat) \<and> (of_char c :: nat) \<le> 90")
  case True
  define n where "n = (of_char c :: nat)"
  from True have n: "65 \<le> n" "n \<le> 90" by (simp_all add: n_def)
  have lc: "lower_char c = char_of (n + 32)"
    using True by (simp add: lower_char_def n_def)
  have "(of_char (char_of (n + 32) :: char) :: nat) = (n + 32) mod 256"
    by simp
  with n have m: "(of_char (char_of (n + 32) :: char) :: nat) = n + 32"
    by simp
  have "upper_char (char_of (n + 32)) = char_of n"
    using n by (simp add: upper_char_def m del: of_char_of)
  also have "\<dots> = c" by (simp add: n_def)
  also have "\<dots> = upper_char c" using n by (simp add: upper_char_def n_def[symmetric])
  finally show ?thesis by (simp add: lc)
next
  case False
  then have "lower_char c = c" by (auto simp add: lower_char_def)
  then show ?thesis by simp
qed

lemma str_upper_lower: "str_upper (str_lower s) = str_upper s"
  by (simp add: str_upper_def str_lower_def upper_lower_char)

lemma allowed_iff:
  "(e \<in> ALLOWED_EXTENSIONS) =
   (str_lower e \<in> {''.jpg'', ''.jpeg'', ''.png''} \<and> (e = str_lower e \<or> e = str_upper e))"
proof
  assume "e \<in> ALLOWED_EXTENSIONS"
  then consider "e = ''.jpg''" | "e = ''.jpeg''" | "e = ''.png''"
    | "e = ''.JPG''" | "e = ''.JPEG''" | "e = ''.PNG''"
    by (auto simp: ALLOWED_EXTENSIONS_def)
  then show "str_lower e \<in> {''.jpg'', ''.jpeg'', ''.png''} \<and> (e = str_lower e \<or> e = str_upper e)"
  proof cases
    case 1 then show ?thesis by (simp add: case_folds)
  next
    case 2 then show ?thesis by (simp add: case_folds)
  next
    case 3 then show ?thesis by (simp add: case_folds)
  next
    case 4 then show ?thesis by (simp add: case_folds)
  next
    case 5 then show ?thesis by (simp add: case_folds)
  next
    case 6 then show ?thesis by (simp add: case_folds)
  qed
next
  assume a: "str_lower e \<in> {''.jpg'', ''.jpeg'', ''.png''} \<and> (e = str_lower e \<or> e = str_upper e)"
  then have low: "str_lower e \<in> {''.jpg'', ''.jpeg'', ''.png''}" by simp
  from a have "e = str_lower e \<or> e = str_upper e" by simp
  then show "e \<in> ALLOWED_EXTENSIONS"
  proof
    assume "e = str_lower e"
    with low have "e \<in> {''.jpg'', ''.jpeg'', ''.png''}" by simp
    then show ?thesis by (auto simp: ALLOWED_EXTENSIONS_def)
  next
    assume "e = str_upper e"
    then have e: "e = str_upper (str_lower e)" by (simp add: str_upper_lower)
    from low consider "str_lower e = ''.jpg''" | "str_lower e = ''.jpeg''" | "str_lower e = ''.png''"
      by auto
    then show ?thesis
    proof cases
      case 1
      with e have "e = str_upper ''.jpg''" by simp
      then show ?thesis by (simp add: ALLOWED_EXTENSIONS_def case_folds)
    next
      case 2
      with e have "e = str_upper ''.jpeg''" by simp
      then show ?thesis by (simp add: ALLOWED_EXTENSIONS_def case_folds)
    next
      case 3
      with e have "e = str_upper ''.png''" by simp
      then show ?thesis by (simp add: ALLOWED_EXTENSIONS_def case_folds)
    qed
  qed
qed

lemma except_clauses_not_invalid: "except_clauses e \<noteq> invalid_file_type"
  by (cases e) (simp_all add: except_clauses_def invalid_file_type_def)

lemma predict_issue_rejected:
  "snd (splitext (filename file)) \<notin> ALLOWED_EXTENSIONS \<Longrightarrow>
   predict_issue lib f32 model file = (Inl invalid_file_type, 0)"
  by (simp add: predict_issue_def)

lemma predict_issue_accepted:
  assumes "snd (splitext (filename file)) \<in> ALLOWED_EXTENSIONS"
  shows "fst (predict_issue lib f32 model file) \<noteq> Inl invalid_file_type"
proof (cases "predict_issue_body lib f32 model file")
  case (Pair r calls)
  with assms show ?thesis
    by (cases r) (simp_all add: predict_issue_def except_clauses_not_invalid)
qed

lemma invalid_file_type_status: "fst (http_response (Inl invalid_file_type)) = 400"
  by (simp add: http_response_def invalid_file_type_def HTTP_400_BAD_REQUEST_def)

text \<open>
  C2 (as amended). The extension check compares the extension with six spellings: it
  passes exactly when the extension is \<open>.jpg\<close>, \<open>.jpeg\<close> or \<open>.png\<close> written all in
  lower case or all in upper case. When it passes, the handler does not answer with the
  invalid-file-type error. For every other extension, mixed-case spellings included,
  the handler answers with that error, status 400, and the model has not been called.
\<close>

theorem extension_check_exact_spellings:
  "(snd (splitext (filename file)) \<in> ALLOWED_EXTENSIONS) =
     (str_lower (snd (splitext (filename file))) \<in> {''.jpg'', ''.jpeg'', ''.png''} \<and>
      (snd (splitext (filename file)) = str_lower (snd (splitext (filename file))) \<or>
       snd (splitext (filename file)) = str_upper (snd (splitext (filename file))))) \<and>
   (snd (splitext (filename file)) \<in> ALLOWED_EXTENSIONS \<longrightarrow>
      fst (predict_issue lib f32 model file) \<noteq> Inl invalid_file_type) \<and>
   (snd (splitext (filename file)) \<notin> ALLOWED_EXTENSIONS \<longrightarrow>
      predict_issue lib f32 model file = (Inl invalid_file_type, 0) \<and>
      fst (http_response (fst (predict_issue lib f32 model file))) = 400)"
proof (intro conjI impI)
  show "(snd (splitext (filename file)) \<in> ALLOWED_EXTENSIONS) =
     (str_lower (snd (splitext (filename file))) \<in> {''.jpg'', ''.jpeg'', ''.png''} \<and>
      (snd (splitext (filename file)) = str_lower (snd (splitext (filename file))) \<or>
       snd (splitext (filename file)) = str_upper (snd (splitext (filename file)))))"
    by (rule allowed_iff)
next
  assume "snd (splitext (filename file)) \<in> ALLOWED_EXTENSIONS"
  then show "fst (predict_issue lib f32 model file) \<noteq> Inl invalid_file_type"
    by (rule predict_issue_accepted)
next
  assume a: "snd (splitext (filename file)) \<notin> ALLOWED_EXTENSIONS"
  then show "predict_issue lib f32 model file = (Inl invalid_file_type, 0)"
    by (rule predict_issue_rejected)
  from a show "fst (http_response (fst (predict_issue lib f32 model file))) = 400"
    by (simp add: predict_issue_rejected invalid_file_type_status)
qed

theorem extension_check_exact_spellings_witness:
  "snd (splitext (filename \<lparr>filename = ''road.JPG'', contents = [128]\<rparr>)) \<in> ALLOWED_EXTENSIONS \<and>
   fst (predict_issue toy_pil (\<lambda>x. x) (Some toy_model) \<lparr>filename = ''road.JPG'', contents = [128]\<rparr>)
     \<noteq> Inl invalid_file_type \<and>
   snd (splitext (filename \<lparr>filename = ''notes.txt'', contents = [128]\<rparr>)) \<notin> ALLOWED_EXTENSIONS \<and>
   predict_issue toy_pil (\<lambda>x. x) (Some toy_model) \<lparr>filename = ''notes.txt'', contents = [128]\<rparr> =
     (Inl invalid_file_type, 0) \<and>
   fst (http_response (fst (predict_issue toy_pil (\<lambda>x. x) (Some toy_model)
     \<lparr>filename = ''notes.txt'', contents = [128]\<rparr>))) = 400"
proof -
  have r: "splitext ''road.JPG'' = (''road'', ''.JPG'')" by code_simp
  have a: "snd (splitext (filename \<lparr>filename = ''road.JPG'', contents = [128]\<rparr>)) \<in> ALLOWED_EXTENSIONS"
    by (simp add: r ALLOWED_EXTENSIONS_def)
  have b: "snd (splitext (filename \<lparr>filename = ''notes.txt'', contents = [128]\<rparr>)) \<notin> ALLOWED_EXTENSIONS"
    by (simp add: splitext_notes ALLOWED_EXTENSIONS_def)
  from a b
    extension_check_exact_spellings [of "\<lparr>filename = ''road.JPG'', contents = [128]\<rparr>" toy_pil "\<lambda>x. x" "Some toy_model"]
    extension_check_exact_spellings [of "\<lparr>filename = ''notes.txt'', contents = [128]\<rparr>" toy_pil "\<lambda>x. x" "Some toy_model"]
  show ?thesis by blast
qed

text \<open>
  The claim C2 as stated fails: \<open>.Jpg\<close> equals \<open>.jpg\<close> when case is ignored, and
  the upload \<open>photo.Jpg\<close> is rejected with status 400.
\<close>

theorem mixed_case_extension_counterexample:
  "str_lower (snd (splitext (filename \<lparr>filename = ''photo.Jpg'', contents = [128]\<rparr>))) = ''.jpg'' \<and>
   predict_issue toy_pil (\<lambda>x. x) (Some toy_model) \<lparr>filename = ''photo.Jpg'', contents = [128]\<rparr> =
     (Inl invalid_file_type, 0) \<and>
   fst (http_response (Inl invalid_file_type)) = 400"
proof -
  have "snd (splitext (filename \<lparr>filename = ''photo.Jpg'', contents = [128]\<rparr>)) \<notin> ALLOWED_EXTENSIONS"
    by (simp add: splitext_photo ALLOWED_EXTENSIONS_def)
  then have "predict_issue toy_pil (\<lambda>x. x) (Some toy_model) \<lparr>filename = ''photo.Jpg'', contents = [128]\<rparr> =
     (Inl invalid_file_type, 0)"
    by (rule predict_issue_rejected)
  then show ?thesis
    by (simp add: splitext_photo str_lower_Jpg invalid_file_type_status)
qed

subsection \<open>An empty upload\<close>

lemma except_clauses_HTTPException:
  "except_clauses (HTTPException c d) =
     HTTPException HTTP_500_INTERNAL_SERVER_ERROR
       (Wrapped ''Unexpected error: '' (HTTPException c d))"
  by (simp add: except_clauses_def)

lemma predict_issue_empty:
  assumes "snd (splitext (filename file)) \<in> ALLOWED_EXTENSIONS" and "contents file = []"
  shows "predict_issue lib f32 model file =
     (Inl (HTTPException 500
        (Wrapped ''Unexpected error: '' (HTTPException 400 (Text ''Empty file uploaded'')))), 0)"
  using assms
  by (simp add: predict_issue_def predict_issue_body_def except_clauses_HTTPException
      HTTP_400_BAD_REQUEST_def HTTP_500_INTERNAL_SERVER_ERROR_def)

text \<open>
  C1. The claim asks for status 400 on an empty upload with an allowed extension. The
  handler raises that error inside its \<open>try\<close>; the last \<open>except\<close> clause catches it
  and raises status 500 in its place. On the upload \<open>road.jpg\<close> with no bytes the
  answer has status 500, whatever the library and the model are.
\<close>

theorem predict_issue_empty_upload_is_500:
  "predict_issue lib f32 model \<lparr>filename = ''road.jpg'', contents = []\<rparr> =
     (Inl (HTTPException 500
        (Wrapped ''Unexpected error: '' (HTTPException 400 (Text ''Empty file uploaded'')))), 0) \<and>
   fst (http_response (fst (predict_issue lib f32 model \<lparr>filename = ''road.jpg'', contents = []\<rparr>))) = 500"
proof -
  have "snd (splitext (filename \<lparr>filename = ''road.jpg'', contents = []\<rparr>)) \<in> ALLOWED_EXTENSIONS"
    by (simp add: splitext_road ALLOWED_EXTENSIONS_def)
  then have "predict_issue lib f32 model \<lparr>filename = ''road.jpg'', contents = []\<rparr> =
     (Inl (HTTPException 500
        (Wrapped ''Unexpected error: '' (HTTPException 400 (Text ''Empty file uploaded'')))), 0)"
    by (rule predict_issue_empty) simp
  then show ?thesis by (simp add: http_response_def)
qed

subsection \<open>The response\<close>

lemma getitem_Inr_iff: "(getitem xs i = Inr v) = (i < length xs \<and> v = xs ! i)"
  by (auto simp: getitem_def)

lemma bind_exc_Inr: "(bind_exc r f = Inr v) = (\<exists>a. r = Inr a \<and> f a = Inr v)"
  by (cases r) simp_all

lemma decode_probs_Inr:
  assumes "decode_probs issue_probs severity_probs = Inr result"
  shows "\<exists>i s. np_argmax issue_probs = Inr i \<and> np_argmax severity_probs = Inr s \<and>
     result = [''issue_type'' \<mapsto> Str (ISSUE_CLASSES ! i),
               ''severity'' \<mapsto> Str (SEVERITY_CLASSES ! s),
               ''confidence'' \<mapsto> Float (issue_probs ! i),
               ''severity_confidence'' \<mapsto> Float (severity_probs ! s)]"
  using assms unfolding decode_probs_def bind_exc_Inr getitem_Inr_iff
  by fastforce

lemma predict_issue_and_severity_Inr:
  assumes "predict_issue_and_severity model image_array = (Inr result, calls)"
  shows "\<exists>m ps issue_probs severity_probs. model = Some m \<and> m image_array = Inr ps \<and>
      extract_probs ps = Inr (issue_probs, severity_probs) \<and>
      decode_probs issue_probs severity_probs = Inr result \<and> calls = 1"
proof (cases model)
  case None
  with assms show ?thesis by (simp add: predict_issue_and_severity_def)
next
  case (Some m)
  with assms have d: "bind_exc (m image_array) decode_predictions = Inr result" and c: "calls = 1"
    by (auto simp: predict_issue_and_severity_def split: sum.splits)
  from d obtain ps where ps: "m image_array = Inr ps" "decode_predictions ps = Inr result"
    by (auto simp: bind_exc_Inr)
  from ps(2) obtain pr where pr: "extract_probs ps = Inr pr"
    "(case pr of (issue_probs, severity_probs) \<Rightarrow> decode_probs issue_probs severity_probs) = Inr result"
    by (auto simp: decode_predictions_def bind_exc_Inr)
  obtain ip sp where "pr = (ip, sp)" by (cases pr)
  with pr ps Some c show ?thesis by auto
qed

lemma predict_issue_Inr:
  assumes "predict_issue lib f32 model file = (Inr response, calls)"
  shows "\<exists>image_array result. preprocess_image lib f32 (contents file) = Inr image_array \<and>
     predict_issue_and_severity model image_array = (Inr result, calls) \<and>
     bind_exc (dict_getitem result ''issue_type'') (\<lambda>a.
       bind_exc (dict_getitem result ''severity'') (\<lambda>b.
       bind_exc (dict_getitem result ''confidence'') (\<lambda>c.
       PredictionResponse_init a b c))) = Inr response"
proof -
  from assms have ok: "snd (splitext (filename file)) \<in> ALLOWED_EXTENSIONS"
    by (auto simp: predict_issue_def split: if_splits)
  with assms have b: "predict_issue_body lib f32 model file = (Inr response, calls)"
    by (auto simp: predict_issue_def split: prod.splits sum.splits)
  then have ne: "length (contents file) \<noteq> 0"
    by (auto simp: predict_issue_body_def split: if_splits)
  from b ne obtain image_array where p: "preprocess_image lib f32 (contents file) = Inr image_array"
    by (cases "preprocess_image lib f32 (contents file)") (auto simp: predict_issue_body_def)
  obtain r n where rn: "predict_issue_and_severity model image_array = (r, n)"
    by (cases "predict_issue_and_severity model image_array")
  from b ne p rn have n: "n = calls" and
    r: "bind_exc r (\<lambda>result.
         bind_exc (dict_getitem result ''issue_type'') (\<lambda>a.
         bind_exc (dict_getitem result ''severity'') (\<lambda>b.
         bind_exc (dict_getitem result ''confidence'') (\<lambda>c.
         PredictionResponse_init a b c)))) = Inr response"
    by (simp_all add: predict_issue_body_def)
  from r obtain result where "r = Inr result" by (cases r) simp_all
  with r rn n p show ?thesis by auto
qed

text \<open>
  C10. When \<open>POST /predict\<close> succeeds, the result of the prediction routine holds,
  under \<open>severity_confidence\<close>, the severity vector's value at its arg-max index; the
  response is built from the other three entries, and its JSON body has the fields
  \<open>issue_type\<close>, \<open>severity\<close> and \<open>confidence\<close> and no field \<open>severity_confidence\<close>.
\<close>

theorem severity_confidence_internal_only:
  "(predict_issue lib f32 model file = (Inr response, calls) \<longrightarrow>
     (\<exists>image_array result m ps issue_probs severity_probs s.
        preprocess_image lib f32 (contents file) = Inr image_array \<and>
        predict_issue_and_severity model image_array = (Inr result, calls) \<and>
        model = Some m \<and> m image_array = Inr ps \<and>
        extract_probs ps = Inr (issue_probs, severity_probs) \<and>
        np_argmax severity_probs = Inr s \<and>
        result ''severity_confidence'' = Some (Float (severity_probs ! s)) \<and>
        result ''issue_type'' = Some (Str (issue_type response)) \<and>
        result ''severity'' = Some (Str (severity response)) \<and>
        result ''confidence'' = Some (Float (confidence response)))) \<and>
   http_response (Inr response) =
     (200, Json [(''issue_type'', Str (issue_type response)),
                 (''severity'', Str (severity response)),
                 (''confidence'', Float (confidence response))]) \<and>
   (\<exists>fields. snd (http_response (Inr response)) = Json fields \<and>
      map fst fields = [''issue_type'', ''severity'', ''confidence''] \<and>
      map_of fields ''severity_confidence'' = None)"
proof (intro conjI impI)
  assume a: "predict_issue lib f32 model file = (Inr response, calls)"
  from predict_issue_Inr [OF a] obtain image_array result where
    p: "preprocess_image lib f32 (contents file) = Inr image_array" and
    q: "predict_issue_and_severity model image_array = (Inr result, calls)" and
    i: "bind_exc (dict_getitem result ''issue_type'') (\<lambda>a.
       bind_exc (dict_getitem result ''severity'') (\<lambda>b.
       bind_exc (dict_getitem result ''confidence'') (\<lambda>c.
       PredictionResponse_init a b c))) = Inr response"
    by blast
  from predict_issue_and_severity_Inr [OF q] obtain m ps issue_probs severity_probs where
    m: "model = Some m" "m image_array = Inr ps"
       "extract_probs ps = Inr (issue_probs, severity_probs)"
       "decode_probs issue_probs severity_probs = Inr result"
    by blast
  from decode_probs_Inr [OF m(4)] obtain i' s where
    s: "np_argmax severity_probs = Inr s" and
    res: "result = [''issue_type'' \<mapsto> Str (ISSUE_CLASSES ! i'),
               ''severity'' \<mapsto> Str (SEVERITY_CLASSES ! s),
               ''confidence'' \<mapsto> Float (issue_probs ! i'),
               ''severity_confidence'' \<mapsto> Float (severity_probs ! s)]"
    by blast
  from i res have resp: "response = \<lparr>issue_type = ISSUE_CLASSES ! i',
      severity = SEVERITY_CLASSES ! s, confidence = issue_probs ! i'\<rparr>"
    by (simp add: dict_getitem_def PredictionResponse_init_def)
  have f: "result ''severity_confidence'' = Some (Float (severity_probs ! s))"
    "result ''issue_type'' = Some (Str (issue_type response))"
    "result ''severity'' = Some (Str (severity response))"
    "result ''confidence'' = Some (Float (confidence response))"
    by (simp_all add: res resp)
  from p q m s f show "\<exists>image_array result m ps issue_probs severity_probs s.
        preprocess_image lib f32 (contents file) = Inr image_array \<and>
        predict_issue_and_severity model image_array = (Inr result, calls) \<and>
        model = Some m \<and> m image_array = Inr ps \<and>
        extract_probs ps = Inr (issue_probs, severity_probs) \<and>
        np_argmax severity_probs = Inr s \<and>
        result ''severity_confidence'' = Some (Float (severity_probs ! s)) \<and>
        result ''issue_type'' = Some (Str (issue_type response)) \<and>
        result ''severity'' = Some (Str (severity response)) \<and>
        result ''confidence'' = Some (Float (confidence response))"
    by blast
next
  show "http_response (Inr response) =
     (200, Json [(''issue_type'', Str (issue_type response)),
                 (''severity'', Str (severity response)),
                 (''confidence'', Float (confidence response))])"
    by (simp add: http_response_def)
next
  show "\<exists>fields. snd (http_response (Inr response)) = Json fields \<and>
      map fst fields = [''issue_type'', ''severity'', ''confidence''] \<and>
      map_of fields ''severity_confidence'' = None"
    by (simp add: http_response_def)
qed

lemma toy_predict:
  "predict_issue toy_pil (\<lambda>x. x) (Some toy_model) \<lparr>filename = ''road.jpg'', contents = [128]\<rparr> =
     (Inr \<lparr>issue_type = ''garbage'', severity = ''high'', confidence = 7/10\<rparr>, 1)"
proof -
  note e = splitext_road
  have l: "load_rgb_resized toy_pil [128] =
     Inr \<lparr>img_mode = ''RGB'', img_size = (224, 224), img_pixel = (\<lambda>(x, y). [128, 128, 128])\<rparr>"
    by (rule toy_load)
  have d: "decode_predictions (Positional [[[1/10, 7/10, 1/10, 1/10]], [[1/5, 3/10, 1/2]]]) =
     Inr [''issue_type'' \<mapsto> Str ''garbage'', ''severity'' \<mapsto> Str ''high'',
          ''confidence'' \<mapsto> Float (7/10), ''severity_confidence'' \<mapsto> Float (1/2)]"
    by (simp add: decode_predictions_def extract_probs_def getitem_def decode_probs_def
      np_argmax_def ISSUE_CLASSES_def SEVERITY_CLASSES_def)
  show ?thesis
    by (simp add: predict_issue_def e ALLOWED_EXTENSIONS_def predict_issue_body_def
        preprocess_image_def l predict_issue_and_severity_def toy_model_def d
        dict_getitem_def PredictionResponse_init_def del: upt_rec_numeral)
qed

theorem severity_confidence_internal_only_witness:
  "predict_issue toy_pil (\<lambda>x. x) (Some toy_model) \<lparr>filename = ''road.jpg'', contents = [128]\<rparr> =
     (Inr \<lparr>issue_type = ''garbage'', severity = ''high'', confidence = 7/10\<rparr>, 1) \<and>
   (\<exists>image_array result.
      predict_issue_and_severity (Some toy_model) image_array = (Inr result, 1) \<and>
      result ''severity_confidence'' = Some (Float (1/2))) \<and>
   http_response (Inr \<lparr>issue_type = ''garbage'', severity = ''high'', confidence = 7/10\<rparr>) =
     (200, Json [(''issue_type'', Str ''garbage''), (''severity'', Str ''high''),
                 (''confidence'', Float (7/10))])"
proof -
  note t = severity_confidence_internal_only
    [of toy_pil "\<lambda>x. x" "Some toy_model" "\<lparr>filename = ''road.jpg'', contents = [128]\<rparr>"
        "\<lparr>issue_type = ''garbage'', severity = ''high'', confidence = 7/10\<rparr>" 1]
  from t toy_predict obtain image_array result ps issue_probs severity_probs s where
    r: "predict_issue_and_severity (Some toy_model) image_array = (Inr result, 1)"
       "toy_model image_array = Inr ps"
       "extract_probs ps = Inr (issue_probs, severity_probs)"
       "np_argmax severity_probs = Inr s"
       "result ''severity_confidence'' = Some (Float (severity_probs ! s))"
    by auto
  from r(2) have ps: "ps = Positional [[[1/10, 7/10, 1/10, 1/10]], [[1/5, 3/10, 1/2]]]"
    by (simp add: toy_model_def)
  from r(3) have sp: "severity_probs = [1/5, 3/10, 1/2]"
    by (simp add: ps extract_probs_def getitem_def)
  from r(4) have "s = 2" by (simp add: sp np_argmax_def)
  with r(5) sp have "result ''severity_confidence'' = Some (Float (1/2))" by simp
  with r(1) have "\<exists>image_array result.
      predict_issue_and_severity (Some toy_model) image_array = (Inr result, 1) \<and>
      result ''severity_confidence'' = Some (Float (1/2))" by blast
  with t toy_predict show ?thesis by simp
qed

end
